theory Spec2Isabelle
  imports Complex_Main
begin

section \<open>The wallet ledger: data model\<close>

text \<open>
  The ledger lives in three relational tables (\<^verbatim>\<open>users\<close>, \<^verbatim>\<open>wallets\<close>,
  \<^verbatim>\<open>transactions\<close>, created by \<^verbatim>\<open>001_create_tables.sql\<close>) and is driven by
  \<^verbatim>\<open>WalletService\<close>. A table is a list of rows; the timestamp columns
  (\<^verbatim>\<open>created_at\<close>, \<^verbatim>\<open>updated_at\<close>) play no part in any operation and are left out.
  Row identifiers of \<^verbatim>\<open>users\<close> and \<^verbatim>\<open>wallets\<close> are opaque strings; a transaction row
  is numbered by its position of insertion in place of the generated UUID.

  Money. A JavaScript \<^verbatim>\<open>number\<close> is either a finite value, an infinity or NaN. Finite
  values are taken as exact rationals: the binary rounding error of IEEE doubles is not
  part of this model. What is modelled is every place where the program or the schema
  rounds to two decimals: \<^verbatim>\<open>toFixed(2)\<close> and the \<^verbatim>\<open>NUMERIC(18,2)\<close> columns.
\<close>

datatype number = Num rat | PosInfinity | NegInfinity | NaN

record user_row =
  u_id :: string
  u_email :: string

record wallet_row =
  w_id :: string
  w_user_id :: string
  w_currency :: string
  w_balance :: rat

datatype txn_type = Credit | Debit | TransferIn | TransferOut

datatype txn_status = Success | Pending | Failed

record txn_row =
  t_id :: nat
  t_wallet_id :: string
  t_user_id :: string
  t_type :: txn_type
  t_amount :: rat
  t_reference :: string
  t_description :: "string option"
  t_balance_before :: rat
  t_balance_after :: rat
  t_status :: txn_status

record db =
  users :: "user_row list"
  wallets :: "wallet_row list"
  transactions :: "txn_row list"

text \<open>
  Errors. \<^verbatim>\<open>AppError(status, message)\<close> is what the service throws itself; a
  \<open>DatabaseError\<close> is a statement rejected by the store: a violated \<^verbatim>\<open>UNIQUE\<close> or
  \<^verbatim>\<open>CHECK\<close> constraint, or a value too large for \<^verbatim>\<open>NUMERIC(18,2)\<close>.
\<close>

datatype db_error = UniqueViolation | CheckViolation | NumericOverflow

datatype error = AppError nat string | DatabaseError db_error

record transfer_response =
  sender_transaction :: txn_row
  recipient_transaction :: txn_row
  sender_new_balance :: rat
  recipient_new_balance :: rat

section \<open>Numbers and optional strings\<close>

text \<open>\<^verbatim>\<open>isValidAmount = amount > 0 && Number.isFinite(amount)\<close> (validators.ts).\<close>

fun isValidAmount :: "number \<Rightarrow> bool" where
  "isValidAmount (Num q) = (0 < q)"
| "isValidAmount PosInfinity = False"
| "isValidAmount NegInfinity = False"
| "isValidAmount NaN = False"

text \<open>The finite value of a number; only ever used after \<open>isValidAmount\<close> has passed.\<close>

fun num_value :: "number \<Rightarrow> rat" where
  "num_value (Num q) = q"
| "num_value PosInfinity = 0"
| "num_value NegInfinity = 0"
| "num_value NaN = 0"

text \<open>
  \<^verbatim>\<open>x.toFixed(2)\<close>: the integer \<open>n\<close> with \<open>n / 100\<close> nearest to \<open>x\<close>, the larger one on a
  tie. The resulting decimal string is kept as the rational it denotes.
\<close>

definition toFixed2 :: "rat \<Rightarrow> rat" where
  "toFixed2 x = of_int \<lfloor>x * 100 + 1 / 2\<rfloor> / 100"

text \<open>
  Storing into a \<^verbatim>\<open>NUMERIC(18,2)\<close> column rounds to two decimals, ties away from zero,
  and rejects a rounded value of \<open>10^16\<close> or more in absolute value.
\<close>

definition round_half_away :: "rat \<Rightarrow> rat" where
  "round_half_away q =
     (if 0 \<le> q then of_int \<lfloor>q * 100 + 1 / 2\<rfloor> / 100
      else - (of_int \<lfloor>- q * 100 + 1 / 2\<rfloor> / 100))"

definition numeric_18_2 :: "rat \<Rightarrow> db_error + rat" where
  "numeric_18_2 q =
     (let r = round_half_away q
      in if \<bar>r\<bar> < 10 ^ 16 then Inr r else Inl NumericOverflow)"

text \<open>
  An optional string argument is \<^verbatim>\<open>undefined\<close> or a string; in \<^verbatim>\<open>x || y\<close> and \<^verbatim>\<open>!x\<close> the
  empty string counts as absent too.
\<close>

fun truthy :: "string option \<Rightarrow> string option" where
  "truthy None = None"
| "truthy (Some s) = (if s = [] then None else Some s)"

definition or_else :: "string option \<Rightarrow> string \<Rightarrow> string" where
  "or_else x d = (case truthy x of None \<Rightarrow> d | Some s \<Rightarrow> s)"

section \<open>The store\<close>

text \<open>
  A database client inside a transaction: the tables as this transaction sees them, and
  the wallet rows it has locked with \<^verbatim>\<open>SELECT ... FOR UPDATE\<close>, in the order of
  acquisition.
\<close>

record client =
  c_db :: db
  c_locks :: "string list"

text \<open>
  Modelled from the spec: \<^verbatim>\<open>db.transaction\<close> of \<^verbatim>\<open>database/postgres.ts\<close>, which is not
  among the sources (its test \<^verbatim>\<open>database.test.ts\<close> is). It is the atomic scope of the
  specification: \<^verbatim>\<open>BEGIN\<close>, the callback, then \<^verbatim>\<open>COMMIT\<close> when the callback returns and
  \<^verbatim>\<open>ROLLBACK\<close> with the error rethrown when it throws; in both cases the locks are
  released with the client.
\<close>

definition db_transaction :: "(client \<Rightarrow> (error + 'a) \<times> client) \<Rightarrow> db \<Rightarrow> (error + 'a) \<times> db" where
  "db_transaction callback s =
     (case callback \<lparr>c_db = s, c_locks = []\<rparr> of
        (Inl e, c) \<Rightarrow> (Inl e, s)
      | (Inr r, c) \<Rightarrow> (Inr r, c_db c))"

text \<open>\<^verbatim>\<open>SELECT id FROM transactions WHERE reference = $1\<close>\<close>

definition select_transactions_by_reference :: "db \<Rightarrow> string \<Rightarrow> txn_row list" where
  "select_transactions_by_reference s r = filter (\<lambda>t. t_reference t = r) (transactions s)"

text \<open>\<^verbatim>\<open>SELECT id FROM users WHERE email = $1\<close> and \<^verbatim>\<open>... WHERE id = $1\<close>\<close>

definition select_users_by_email :: "db \<Rightarrow> string \<Rightarrow> user_row list" where
  "select_users_by_email s e = filter (\<lambda>u. u_email u = e) (users s)"

definition select_users_by_id :: "db \<Rightarrow> string \<Rightarrow> user_row list" where
  "select_users_by_id s i = filter (\<lambda>u. u_id u = i) (users s)"

text \<open>
  \<^verbatim>\<open>SELECT id, balance FROM wallets WHERE user_id = $1 FOR UPDATE\<close>: the rows found are
  locked for the rest of the transaction.
\<close>

definition select_wallet_for_update :: "string \<Rightarrow> client \<Rightarrow> wallet_row list \<times> client" where
  "select_wallet_for_update userId c =
     (let rows = filter (\<lambda>w. w_user_id w = userId) (wallets (c_db c))
      in (rows, c\<lparr>c_locks := c_locks c @ map w_id rows\<rparr>))"

text \<open>
  \<^verbatim>\<open>UPDATE wallets SET balance = balance + $1 WHERE id = $2\<close> (the debit passes the
  negated amount for \<^verbatim>\<open>balance - $1\<close>). The new balance is stored into a
  \<^verbatim>\<open>NUMERIC(18,2)\<close> column under \<^verbatim>\<open>CHECK (balance >= 0)\<close>.
\<close>

fun update_wallet_rows :: "rat \<Rightarrow> string \<Rightarrow> wallet_row list \<Rightarrow> db_error + wallet_row list" where
  "update_wallet_rows delta wid [] = Inr []"
| "update_wallet_rows delta wid (w # ws) =
     (if w_id w = wid then
        (case numeric_18_2 (w_balance w + delta) of
           Inl e \<Rightarrow> Inl e
         | Inr b \<Rightarrow>
             if b < 0 then Inl CheckViolation
             else (case update_wallet_rows delta wid ws of
                     Inl e \<Rightarrow> Inl e
                   | Inr ws' \<Rightarrow> Inr (w\<lparr>w_balance := b\<rparr> # ws')))
      else (case update_wallet_rows delta wid ws of
              Inl e \<Rightarrow> Inl e
            | Inr ws' \<Rightarrow> Inr (w # ws')))"

definition update_balance :: "rat \<Rightarrow> string \<Rightarrow> client \<Rightarrow> (error + unit) \<times> client" where
  "update_balance delta wid c =
     (case update_wallet_rows delta wid (wallets (c_db c)) of
        Inl e \<Rightarrow> (Inl (DatabaseError e), c)
      | Inr ws \<Rightarrow> (Inr (), c\<lparr>c_db := (c_db c)\<lparr>wallets := ws\<rparr>\<rparr>))"

text \<open>
  \<^verbatim>\<open>INSERT INTO transactions (...) VALUES (...) RETURNING ...\<close>: the three money columns
  are \<^verbatim>\<open>NUMERIC(18,2)\<close>, \<^verbatim>\<open>amount\<close> is under \<^verbatim>\<open>CHECK (amount > 0)\<close> and \<^verbatim>\<open>reference\<close> is
  \<^verbatim>\<open>UNIQUE\<close>. The type and status written by the service always satisfy their checks.
  The wallet and user referenced are those of the wallet row just read, so the foreign
  keys hold.
\<close>

definition insert_transaction ::
  "string \<Rightarrow> string \<Rightarrow> txn_type \<Rightarrow> rat \<Rightarrow> string \<Rightarrow> string option \<Rightarrow> rat \<Rightarrow> rat \<Rightarrow> client
     \<Rightarrow> (error + txn_row) \<times> client" where
  "insert_transaction wid uid ty amount reference description before after c =
     (case numeric_18_2 amount of
        Inl e \<Rightarrow> (Inl (DatabaseError e), c)
      | Inr a \<Rightarrow>
     (case numeric_18_2 before of
        Inl e \<Rightarrow> (Inl (DatabaseError e), c)
      | Inr b0 \<Rightarrow>
     (case numeric_18_2 after of
        Inl e \<Rightarrow> (Inl (DatabaseError e), c)
      | Inr b1 \<Rightarrow>
          if \<not> 0 < a then (Inl (DatabaseError CheckViolation), c)
          else if reference \<in> t_reference ` set (transactions (c_db c))
          then (Inl (DatabaseError UniqueViolation), c)
          else
            (let row = \<lparr>t_id = length (transactions (c_db c)), t_wallet_id = wid,
                        t_user_id = uid, t_type = ty, t_amount = a,
                        t_reference = reference, t_description = description,
                        t_balance_before = b0, t_balance_after = b1,
                        t_status = Success\<rparr>
             in (Inr row,
                 c\<lparr>c_db := (c_db c)\<lparr>transactions := transactions (c_db c) @ [row]\<rparr>\<rparr>)))))"

section \<open>WalletService\<close>

text \<open>
  Every operation awaits its plain queries first and opens its transaction afterwards,
  and other requests may commit in between. The operations therefore take two states:
  \<open>s0\<close>, which the plain queries read, and \<open>s\<close>, the store when the transaction begins.
  The run with no interference is the one where both are the same state. The generated
  reference (\<^verbatim>\<open>generateTransactionReference()\<close>, built from the clock, a counter and
  random bytes) is the argument \<open>gen\<close>. The audit notification sent after the commit
  writes to a table of its own and swallows its failures; it is not modelled, and
  neither is the \<^verbatim>\<open>ipAddress\<close> argument that only it uses.
\<close>

definition getWalletByUserId :: "db \<Rightarrow> string \<Rightarrow> wallet_row option" where
  "getWalletByUserId s userId =
     (case filter (\<lambda>w. w_user_id w = userId) (wallets s) of
        [] \<Rightarrow> None
      | w # _ \<Rightarrow> Some w)"

definition getBalance :: "db \<Rightarrow> string \<Rightarrow> error + (rat \<times> string)" where
  "getBalance s userId =
     (case getWalletByUserId s userId of
        None \<Rightarrow> Inl (AppError 404 ''Wallet not found'')
      | Some wallet \<Rightarrow> Inr (w_balance wallet, w_currency wallet))"

text \<open>The callback of \<^verbatim>\<open>credit\<close>.\<close>

definition credit_tx ::
  "string \<Rightarrow> rat \<Rightarrow> string \<Rightarrow> string option \<Rightarrow> client \<Rightarrow> (error + txn_row) \<times> client" where
  "credit_tx userId amount txnReference description c =
     (case select_wallet_for_update userId c of
        ([], c1) \<Rightarrow> (Inl (AppError 404 ''Wallet not found''), c1)
      | (wallet # _, c1) \<Rightarrow>
          (let balanceBefore = w_balance wallet;
               balanceAfter = balanceBefore + amount
           in case update_balance amount (w_id wallet) c1 of
                (Inl e, c2) \<Rightarrow> (Inl e, c2)
              | (Inr _, c2) \<Rightarrow>
                  insert_transaction (w_id wallet) userId Credit amount txnReference
                    (truthy description) (toFixed2 balanceBefore) (toFixed2 balanceAfter) c2))"

definition credit_at ::
  "db \<Rightarrow> db \<Rightarrow> string \<Rightarrow> number \<Rightarrow> string option \<Rightarrow> string option \<Rightarrow> string
     \<Rightarrow> (error + txn_row) \<times> db" where
  "credit_at s0 s userId amount description reference gen =
     (if \<not> isValidAmount amount then (Inl (AppError 400 ''Invalid amount''), s)
      else
        (let txnReference = or_else reference gen
         in if select_transactions_by_reference s0 txnReference \<noteq> []
            then (Inl (AppError 409 ''Transaction reference already exists''), s)
            else db_transaction
                   (credit_tx userId (num_value amount) txnReference description) s))"

definition credit ::
  "db \<Rightarrow> string \<Rightarrow> number \<Rightarrow> string option \<Rightarrow> string option \<Rightarrow> string
     \<Rightarrow> (error + txn_row) \<times> db" where
  "credit s = credit_at s s"

text \<open>The callback of \<^verbatim>\<open>debit\<close>.\<close>

definition debit_tx ::
  "string \<Rightarrow> rat \<Rightarrow> string \<Rightarrow> string option \<Rightarrow> client \<Rightarrow> (error + txn_row) \<times> client" where
  "debit_tx userId amount txnReference description c =
     (case select_wallet_for_update userId c of
        ([], c1) \<Rightarrow> (Inl (AppError 404 ''Wallet not found''), c1)
      | (wallet # _, c1) \<Rightarrow>
          (let balanceBefore = w_balance wallet
           in if balanceBefore < amount
              then (Inl (AppError 400 ''Insufficient balance''), c1)
              else
                (let balanceAfter = balanceBefore - amount
                 in case update_balance (- amount) (w_id wallet) c1 of
                      (Inl e, c2) \<Rightarrow> (Inl e, c2)
                    | (Inr _, c2) \<Rightarrow>
                        insert_transaction (w_id wallet) userId Debit amount txnReference
                          (truthy description) (toFixed2 balanceBefore)
                          (toFixed2 balanceAfter) c2)))"

definition debit_at ::
  "db \<Rightarrow> db \<Rightarrow> string \<Rightarrow> number \<Rightarrow> string option \<Rightarrow> string option \<Rightarrow> string
     \<Rightarrow> (error + txn_row) \<times> db" where
  "debit_at s0 s userId amount description reference gen =
     (if \<not> isValidAmount amount then (Inl (AppError 400 ''Invalid amount''), s)
      else
        (let txnReference = or_else reference gen
         in if select_transactions_by_reference s0 txnReference \<noteq> []
            then (Inl (AppError 409 ''Transaction reference already exists''), s)
            else db_transaction
                   (debit_tx userId (num_value amount) txnReference description) s))"

definition debit ::
  "db \<Rightarrow> string \<Rightarrow> number \<Rightarrow> string option \<Rightarrow> string option \<Rightarrow> string
     \<Rightarrow> (error + txn_row) \<times> db" where
  "debit s = debit_at s s"

text \<open>\<^verbatim>\<open>getTransactionByReference\<close>: \<^verbatim>\<open>WHERE reference = $1 AND user_id = $2\<close>.\<close>

definition getTransactionByReference :: "db \<Rightarrow> string \<Rightarrow> string \<Rightarrow> txn_row option" where
  "getTransactionByReference s reference userId =
     (case filter (\<lambda>t. t_reference t = reference \<and> t_user_id t = userId) (transactions s) of
        [] \<Rightarrow> None
      | t # _ \<Rightarrow> Some t)"

text \<open>
  \<^verbatim>\<open>transfer\<close>. The recipient is looked up by email when an email is given, otherwise by
  identifier.
\<close>

definition resolve_recipient :: "db \<Rightarrow> string option \<Rightarrow> string option \<Rightarrow> error + string" where
  "resolve_recipient s recipientEmail recipientUserId =
     (case truthy recipientEmail of
        Some email \<Rightarrow>
          (case select_users_by_email s email of
             [] \<Rightarrow> Inl (AppError 404 ''Recipient user not found'')
           | u # _ \<Rightarrow> Inr (u_id u))
      | None \<Rightarrow>
          (case truthy recipientUserId of
             Some uid \<Rightarrow>
               (case select_users_by_id s uid of
                  [] \<Rightarrow> Inl (AppError 404 ''Recipient user not found'')
                | u # _ \<Rightarrow> Inr uid)
           | None \<Rightarrow> Inl (AppError 400 ''Recipient identifier is required'')))"

text \<open>The callback of \<^verbatim>\<open>transfer\<close>.\<close>

definition transfer_tx ::
  "string \<Rightarrow> string \<Rightarrow> rat \<Rightarrow> string \<Rightarrow> string option \<Rightarrow> client
     \<Rightarrow> (error + transfer_response) \<times> client" where
  "transfer_tx senderUserId recipientId amount txnReference description c =
     (case select_wallet_for_update senderUserId c of
        ([], c1) \<Rightarrow> (Inl (AppError 404 ''Sender wallet not found''), c1)
      | (senderWallet # _, c1) \<Rightarrow>
     (let senderBalanceBefore = w_balance senderWallet
      in if senderBalanceBefore < amount
         then (Inl (AppError 400 ''Insufficient balance''), c1)
         else
     (case select_wallet_for_update recipientId c1 of
        ([], c2) \<Rightarrow> (Inl (AppError 404 ''Recipient wallet not found''), c2)
      | (recipientWallet # _, c2) \<Rightarrow>
     (let recipientBalanceBefore = w_balance recipientWallet;
          senderBalanceAfter = senderBalanceBefore - amount;
          recipientBalanceAfter = recipientBalanceBefore + amount
      in
     (case update_balance (- amount) (w_id senderWallet) c2 of
        (Inl e, c3) \<Rightarrow> (Inl e, c3)
      | (Inr _, c3) \<Rightarrow>
     (case update_balance amount (w_id recipientWallet) c3 of
        (Inl e, c4) \<Rightarrow> (Inl e, c4)
      | (Inr _, c4) \<Rightarrow>
     (let transferDescription = or_else description ''Transfer''
      in
     (case insert_transaction (w_id senderWallet) senderUserId TransferOut amount
             (txnReference @ ''-OUT'')
             (Some (transferDescription @ '' to user '' @ recipientId))
             (toFixed2 senderBalanceBefore) (toFixed2 senderBalanceAfter) c4 of
        (Inl e, c5) \<Rightarrow> (Inl e, c5)
      | (Inr senderTxn, c5) \<Rightarrow>
     (case insert_transaction (w_id recipientWallet) recipientId TransferIn amount
             (txnReference @ ''-IN'')
             (Some (transferDescription @ '' from user '' @ senderUserId))
             (toFixed2 recipientBalanceBefore) (toFixed2 recipientBalanceAfter) c5 of
        (Inl e, c6) \<Rightarrow> (Inl e, c6)
      | (Inr recipientTxn, c6) \<Rightarrow>
          (Inr \<lparr>sender_transaction = senderTxn,
                recipient_transaction = recipientTxn,
                sender_new_balance = toFixed2 senderBalanceAfter,
                recipient_new_balance = toFixed2 recipientBalanceAfter\<rparr>, c6))))))))))"

definition transfer_at ::
  "db \<Rightarrow> db \<Rightarrow> string \<Rightarrow> string option \<Rightarrow> string option \<Rightarrow> number \<Rightarrow> string option
     \<Rightarrow> string option \<Rightarrow> string \<Rightarrow> (error + transfer_response) \<times> db" where
  "transfer_at s0 s senderUserId recipientEmail recipientUserId amount description reference gen =
     (if \<not> isValidAmount amount then (Inl (AppError 400 ''Invalid amount''), s)
      else if truthy recipientEmail = None \<and> truthy recipientUserId = None
      then (Inl (AppError 400 ''Either recipient_email or recipient_user_id must be provided''), s)
      else
        (let txnReference = or_else reference gen
         in if select_transactions_by_reference s0 txnReference \<noteq> []
            then (Inl (AppError 409 ''Transaction reference already exists''), s)
            else
              (case resolve_recipient s0 recipientEmail recipientUserId of
                 Inl e \<Rightarrow> (Inl e, s)
               | Inr recipientId \<Rightarrow>
                   if senderUserId = recipientId
                   then (Inl (AppError 400 ''Cannot transfer to yourself''), s)
                   else db_transaction
                          (transfer_tx senderUserId recipientId (num_value amount)
                             txnReference description) s)))"

definition transfer ::
  "db \<Rightarrow> string \<Rightarrow> string option \<Rightarrow> string option \<Rightarrow> number \<Rightarrow> string option
     \<Rightarrow> string option \<Rightarrow> string \<Rightarrow> (error + transfer_response) \<times> db" where
  "transfer s = transfer_at s s"

section \<open>WalletController.transfer\<close>

text \<open>
  The route handler in front of \<^verbatim>\<open>transfer\<close>. It answers some requests itself and hands
  every error thrown by the service to the error middleware (\<open>NextError\<close>). The
  authenticated user is \<^verbatim>\<open>req.user\<close>, absent when there is none. \<^verbatim>\<open>!data.amount\<close> holds of
  zero and NaN.
\<close>

datatype http_response = Response nat string "transfer_response option" | NextError error

fun amount_missing_or_not_positive :: "number \<Rightarrow> bool" where
  "amount_missing_or_not_positive (Num q) = (q \<le> 0)"
| "amount_missing_or_not_positive PosInfinity = False"
| "amount_missing_or_not_positive NegInfinity = True"
| "amount_missing_or_not_positive NaN = True"

definition WalletController_transfer ::
  "db \<Rightarrow> db \<Rightarrow> string option \<Rightarrow> string option \<Rightarrow> string option \<Rightarrow> number \<Rightarrow> string option
     \<Rightarrow> string option \<Rightarrow> string \<Rightarrow> http_response \<times> db" where
  "WalletController_transfer s0 s user recipient_email recipient_user_id amount description
       reference gen =
     (case user of
        None \<Rightarrow> (Response 401 ''Unauthorized'' None, s)
      | Some userId \<Rightarrow>
          if truthy recipient_email = None \<and> truthy recipient_user_id = None
          then (Response 400 ''Either recipient_email or recipient_user_id must be provided''
                  None, s)
          else if amount_missing_or_not_positive amount
          then (Response 400 ''Valid amount is required'' None, s)
          else
            (case transfer_at s0 s userId recipient_email recipient_user_id amount
                    description reference gen of
               (Inl e, s') \<Rightarrow> (NextError e, s')
             | (Inr r, s') \<Rightarrow> (Response 201 ''Transfer successful'' (Some r), s')))"

section \<open>Store invariants and request sequences\<close>

text \<open>What the schema keeps true of the tables.\<close>

definition two_decimals :: "rat \<Rightarrow> bool" where
  "two_decimals q = (of_int \<lfloor>q * 100\<rfloor> = q * 100)"

definition balances_nonneg :: "db \<Rightarrow> bool" where
  "balances_nonneg s = list_all (\<lambda>w. 0 \<le> w_balance w) (wallets s)"

definition balances_two_decimals :: "db \<Rightarrow> bool" where
  "balances_two_decimals s = list_all (\<lambda>w. two_decimals (w_balance w)) (wallets s)"

definition wallet_keys :: "db \<Rightarrow> bool" where
  "wallet_keys s = (distinct (map w_id (wallets s)) \<and> distinct (map w_user_id (wallets s)))"

definition unique_references :: "db \<Rightarrow> bool" where
  "unique_references s = distinct (map t_reference (transactions s))"

definition store_ok :: "db \<Rightarrow> bool" where
  "store_ok s = (wallet_keys s \<and> balances_two_decimals s \<and> unique_references s)"

text \<open>A request to the engine, and a run of requests one after the other.\<close>

datatype request =
    CreditRequest string number "string option" "string option" string
  | DebitRequest string number "string option" "string option" string
  | TransferRequest string "string option" "string option" number "string option"
      "string option" string

fun serve :: "db \<Rightarrow> request \<Rightarrow> db" where
  "serve s (CreditRequest userId amount description reference gen) =
     snd (credit s userId amount description reference gen)"
| "serve s (DebitRequest userId amount description reference gen) =
     snd (debit s userId amount description reference gen)"
| "serve s (TransferRequest senderUserId recipientEmail recipientUserId amount description
       reference gen) =
     snd (transfer s senderUserId recipientEmail recipientUserId amount description
            reference gen)"

definition run :: "db \<Rightarrow> request list \<Rightarrow> db" where
  "run s reqs = foldl serve s reqs"



section \<open>Example ledgers\<close>

definition alice :: user_row where
  "alice = \<lparr>u_id = ''u-alice'', u_email = ''alice@example.com''\<rparr>"

definition bob :: user_row where
  "bob = \<lparr>u_id = ''u-bob'', u_email = ''bob@example.com''\<rparr>"

definition carol :: user_row where
  "carol = \<lparr>u_id = ''u-carol'', u_email = ''carol@example.com''\<rparr>"

text \<open>Alice holds \<open>a\<close>, Bob holds \<open>b\<close>, Carol holds nothing; no transaction yet.\<close>

definition ledger :: "rat \<Rightarrow> rat \<Rightarrow> db" where
  "ledger a b =
     \<lparr>users = [alice, bob, carol],
      wallets =
        [\<lparr>w_id = ''w-alice'', w_user_id = ''u-alice'', w_currency = ''NGN'', w_balance = a\<rparr>,
         \<lparr>w_id = ''w-bob'', w_user_id = ''u-bob'', w_currency = ''NGN'', w_balance = b\<rparr>,
         \<lparr>w_id = ''w-carol'', w_user_id = ''u-carol'', w_currency = ''NGN'', w_balance = 0\<rparr>],
      transactions = []\<rparr>"

text \<open>The ledger after Alice has sent Bob 100 under the base reference \<open>T1\<close>.\<close>

definition ledger_after_T1 :: db where
  "ledger_after_T1 =
     snd (transfer (ledger 500 200) ''u-alice'' None (Some ''u-bob'') (Num 100) None
            (Some ''T1'') ''TXN-0'')"

text \<open>The ledger after Alice has been credited 500 under the reference \<open>R1\<close>.\<close>

definition ledger_after_R1 :: db where
  "ledger_after_R1 =
     snd (credit (ledger 1000 200) ''u-alice'' (Num 500) None (Some ''R1'') ''TXN-0'')"

text \<open>The two records of that transfer, and the record of that credit.\<close>

definition t1_out :: txn_row where
  "t1_out =
     \<lparr>t_id = 0, t_wallet_id = ''w-alice'', t_user_id = ''u-alice'', t_type = TransferOut,
      t_amount = 100, t_reference = ''T1-OUT'',
      t_description = Some ''Transfer to user u-bob'',
      t_balance_before = 500, t_balance_after = 400, t_status = Success\<rparr>"

definition t1_in :: txn_row where
  "t1_in =
     \<lparr>t_id = 1, t_wallet_id = ''w-bob'', t_user_id = ''u-bob'', t_type = TransferIn,
      t_amount = 100, t_reference = ''T1-IN'',
      t_description = Some ''Transfer from user u-alice'',
      t_balance_before = 200, t_balance_after = 300, t_status = Success\<rparr>"

definition r1_credit :: txn_row where
  "r1_credit =
     \<lparr>t_id = 0, t_wallet_id = ''w-alice'', t_user_id = ''u-alice'', t_type = Credit,
      t_amount = 500, t_reference = ''R1'', t_description = None,
      t_balance_before = 1000, t_balance_after = 1500, t_status = Success\<rparr>"





section \<open>How a transaction succeeds\<close>

text \<open>
  Each statement of the store, when it succeeds, changes one table and nothing else;
  each callback, when it returns, has run all of its statements.
\<close>

lemma select_wallet_for_update_db:
  "select_wallet_for_update userId c = (rows, c') \<Longrightarrow>
     c_db c' = c_db c \<and> filter (\<lambda>w. w_user_id w = userId) (wallets (c_db c)) = rows
     \<and> c_locks c' = c_locks c @ map w_id rows"
  by (auto simp: select_wallet_for_update_def Let_def)

lemma update_balance_Inr:
  "update_balance delta wid c = (Inr u, c') \<Longrightarrow>
     update_wallet_rows delta wid (wallets (c_db c)) = Inr (wallets (c_db c'))
     \<and> transactions (c_db c') = transactions (c_db c) \<and> users (c_db c') = users (c_db c)
     \<and> c_locks c' = c_locks c"
  by (auto simp: update_balance_def split: sum.splits)

lemma insert_transaction_Inr:
  "insert_transaction wid uid ty amount reference description before after c = (Inr row, c') \<Longrightarrow>
     transactions (c_db c') = transactions (c_db c) @ [row]
     \<and> wallets (c_db c') = wallets (c_db c) \<and> users (c_db c') = users (c_db c)
     \<and> c_locks c' = c_locks c
     \<and> reference \<notin> t_reference ` set (transactions (c_db c))
     \<and> t_reference row = reference \<and> t_user_id row = uid \<and> t_wallet_id row = wid
     \<and> t_type row = ty \<and> t_status row = Success
     \<and> numeric_18_2 amount = Inr (t_amount row) \<and> 0 < t_amount row
     \<and> numeric_18_2 before = Inr (t_balance_before row)
     \<and> numeric_18_2 after = Inr (t_balance_after row)"
  by (auto simp: insert_transaction_def Let_def split: sum.splits if_splits)

lemma credit_tx_Inr:
  assumes "credit_tx userId amount r d c = (Inr t, c')"
  shows "\<exists>w rest c1.
     filter (\<lambda>w. w_user_id w = userId) (wallets (c_db c)) = w # rest
     \<and> update_wallet_rows amount (w_id w) (wallets (c_db c)) = Inr (wallets (c_db c'))
     \<and> c_locks c' = c_locks c @ map w_id (w # rest)
     \<and> users (c_db c') = users (c_db c)
     \<and> insert_transaction (w_id w) userId Credit amount r (truthy d)
          (toFixed2 (w_balance w)) (toFixed2 (w_balance w + amount)) c1 = (Inr t, c')
     \<and> transactions (c_db c1) = transactions (c_db c)"
proof -
  obtain rows c1 where s: "select_wallet_for_update userId c = (rows, c1)"
    by (cases "select_wallet_for_update userId c")
  note s1 = select_wallet_for_update_db[OF s]
  from assms s obtain w rest where rows: "rows = w # rest"
    by (cases rows) (auto simp: credit_tx_def)
  obtain r2 c2 where u: "update_balance amount (w_id w) c1 = (r2, c2)"
    by (cases "update_balance amount (w_id w) c1")
  from assms s rows u obtain uu where r2: "r2 = Inr uu"
    by (cases r2) (auto simp: credit_tx_def Let_def)
  note u1 = update_balance_Inr[OF u[unfolded r2]]
  from assms s rows u r2 have i: "insert_transaction (w_id w) userId Credit amount r (truthy d)
          (toFixed2 (w_balance w)) (toFixed2 (w_balance w + amount)) c2 = (Inr t, c')"
    by (simp add: credit_tx_def Let_def)
  note i1 = insert_transaction_Inr[OF i]
  have f: "filter (\<lambda>w. w_user_id w = userId) (wallets (c_db c)) = w # rest"
    using s1 rows by simp
  have d1: "c_db c1 = c_db c" and l1: "c_locks c1 = c_locks c @ map w_id (w # rest)"
    using s1 rows by simp_all
  show ?thesis
    using f d1 l1 u1 i i1 by (intro exI[of _ w] exI[of _ rest] exI[of _ c2] conjI) simp_all
qed

lemma debit_tx_Inr:
  assumes "debit_tx userId amount r d c = (Inr t, c')"
  shows "\<exists>w rest c1.
     filter (\<lambda>w. w_user_id w = userId) (wallets (c_db c)) = w # rest
     \<and> \<not> w_balance w < amount
     \<and> update_wallet_rows (- amount) (w_id w) (wallets (c_db c)) = Inr (wallets (c_db c'))
     \<and> c_locks c' = c_locks c @ map w_id (w # rest)
     \<and> users (c_db c') = users (c_db c)
     \<and> insert_transaction (w_id w) userId Debit amount r (truthy d)
          (toFixed2 (w_balance w)) (toFixed2 (w_balance w - amount)) c1 = (Inr t, c')
     \<and> transactions (c_db c1) = transactions (c_db c)"
proof -
  obtain rows c1 where s: "select_wallet_for_update userId c = (rows, c1)"
    by (cases "select_wallet_for_update userId c")
  note s1 = select_wallet_for_update_db[OF s]
  from assms s obtain w rest where rows: "rows = w # rest"
    by (cases rows) (auto simp: debit_tx_def)
  from assms s rows have b: "\<not> w_balance w < amount"
    by (auto simp: debit_tx_def Let_def split: if_splits)
  obtain r2 c2 where u: "update_balance (- amount) (w_id w) c1 = (r2, c2)"
    by (cases "update_balance (- amount) (w_id w) c1")
  from assms s rows u b obtain uu where r2: "r2 = Inr uu"
    by (cases r2) (auto simp: debit_tx_def Let_def)
  note u1 = update_balance_Inr[OF u[unfolded r2]]
  from assms s rows u r2 b have i: "insert_transaction (w_id w) userId Debit amount r (truthy d)
          (toFixed2 (w_balance w)) (toFixed2 (w_balance w - amount)) c2 = (Inr t, c')"
    by (simp add: debit_tx_def Let_def)
  note i1 = insert_transaction_Inr[OF i]
  have f: "filter (\<lambda>w. w_user_id w = userId) (wallets (c_db c)) = w # rest"
    using s1 rows by simp
  have d1: "c_db c1 = c_db c" and l1: "c_locks c1 = c_locks c @ map w_id (w # rest)"
    using s1 rows by simp_all
  show ?thesis
    using f d1 l1 u1 i i1 b by (intro exI[of _ w] exI[of _ rest] exI[of _ c2] conjI) simp_all
qed

lemma transfer_tx_Inr:
  assumes "transfer_tx senderUserId recipientId amount r d c = (Inr resp, c')"
  shows "\<exists>sw srest rw rrest ws1 c4 c5.
     filter (\<lambda>w. w_user_id w = senderUserId) (wallets (c_db c)) = sw # srest
     \<and> \<not> w_balance sw < amount
     \<and> filter (\<lambda>w. w_user_id w = recipientId) (wallets (c_db c)) = rw # rrest
     \<and> update_wallet_rows (- amount) (w_id sw) (wallets (c_db c)) = Inr ws1
     \<and> update_wallet_rows amount (w_id rw) ws1 = Inr (wallets (c_db c'))
     \<and> c_locks c' = c_locks c @ map w_id (sw # srest) @ map w_id (rw # rrest)
     \<and> users (c_db c') = users (c_db c)
     \<and> transactions (c_db c4) = transactions (c_db c)
     \<and> insert_transaction (w_id sw) senderUserId TransferOut amount (r @ ''-OUT'')
          (Some (or_else d ''Transfer'' @ '' to user '' @ recipientId))
          (toFixed2 (w_balance sw)) (toFixed2 (w_balance sw - amount)) c4
        = (Inr (sender_transaction resp), c5)
     \<and> insert_transaction (w_id rw) recipientId TransferIn amount (r @ ''-IN'')
          (Some (or_else d ''Transfer'' @ '' from user '' @ senderUserId))
          (toFixed2 (w_balance rw)) (toFixed2 (w_balance rw + amount)) c5
        = (Inr (recipient_transaction resp), c')
     \<and> sender_new_balance resp = toFixed2 (w_balance sw - amount)
     \<and> recipient_new_balance resp = toFixed2 (w_balance rw + amount)"
proof -
  obtain rows c1 where s: "select_wallet_for_update senderUserId c = (rows, c1)"
    by (cases "select_wallet_for_update senderUserId c")
  note s1 = select_wallet_for_update_db[OF s]
  from assms s obtain sw srest where rows: "rows = sw # srest"
    by (cases rows) (auto simp: transfer_tx_def)
  from assms s rows have b: "\<not> w_balance sw < amount"
    by (auto simp: transfer_tx_def Let_def split: if_splits)
  obtain rows2 c2 where s2: "select_wallet_for_update recipientId c1 = (rows2, c2)"
    by (cases "select_wallet_for_update recipientId c1")
  note s21 = select_wallet_for_update_db[OF s2]
  from assms s rows b s2 obtain rw rrest where rows2: "rows2 = rw # rrest"
    by (cases rows2) (auto simp: transfer_tx_def Let_def)
  obtain r3 c3 where u: "update_balance (- amount) (w_id sw) c2 = (r3, c3)"
    by (cases "update_balance (- amount) (w_id sw) c2")
  from assms s rows b s2 rows2 u obtain uu where r3: "r3 = Inr uu"
    by (cases r3) (auto simp: transfer_tx_def Let_def)
  note u1 = update_balance_Inr[OF u[unfolded r3]]
  obtain r4 c4 where v: "update_balance amount (w_id rw) c3 = (r4, c4)"
    by (cases "update_balance amount (w_id rw) c3")
  from assms s rows b s2 rows2 u r3 v obtain vv where r4: "r4 = Inr vv"
    by (cases r4) (auto simp: transfer_tx_def Let_def)
  note v1 = update_balance_Inr[OF v[unfolded r4]]
  obtain r5 c5 where i: "insert_transaction (w_id sw) senderUserId TransferOut amount (r @ ''-OUT'')
          (Some (or_else d ''Transfer'' @ '' to user '' @ recipientId))
          (toFixed2 (w_balance sw)) (toFixed2 (w_balance sw - amount)) c4 = (r5, c5)"
    by (cases "insert_transaction (w_id sw) senderUserId TransferOut amount (r @ ''-OUT'')
          (Some (or_else d ''Transfer'' @ '' to user '' @ recipientId))
          (toFixed2 (w_balance sw)) (toFixed2 (w_balance sw - amount)) c4")
  from assms s rows b s2 rows2 u r3 v r4 i obtain st where r5: "r5 = Inr st"
    by (cases r5) (auto simp: transfer_tx_def Let_def)
  note i1 = insert_transaction_Inr[OF i[unfolded r5]]
  obtain r6 c6 where j: "insert_transaction (w_id rw) recipientId TransferIn amount (r @ ''-IN'')
          (Some (or_else d ''Transfer'' @ '' from user '' @ senderUserId))
          (toFixed2 (w_balance rw)) (toFixed2 (w_balance rw + amount)) c5 = (r6, c6)"
    by (cases "insert_transaction (w_id rw) recipientId TransferIn amount (r @ ''-IN'')
          (Some (or_else d ''Transfer'' @ '' from user '' @ senderUserId))
          (toFixed2 (w_balance rw)) (toFixed2 (w_balance rw + amount)) c5")
  from assms s rows b s2 rows2 u r3 v r4 i r5 j obtain rt where r6: "r6 = Inr rt"
    by (cases r6) (auto simp: transfer_tx_def Let_def)
  note j1 = insert_transaction_Inr[OF j[unfolded r6]]
  from assms s rows b s2 rows2 u r3 v r4 i r5 j r6
  have resp: "resp = \<lparr>sender_transaction = st, recipient_transaction = rt,
                sender_new_balance = toFixed2 (w_balance sw - amount),
                recipient_new_balance = toFixed2 (w_balance rw + amount)\<rparr>" and c': "c' = c6"
    by (auto simp: transfer_tx_def Let_def)
  have f1: "filter (\<lambda>w. w_user_id w = senderUserId) (wallets (c_db c)) = sw # srest"
    using s1 rows by simp
  have d1: "c_db c1 = c_db c" and l1: "c_locks c1 = c_locks c @ map w_id (sw # srest)"
    using s1 rows by simp_all
  have f2: "filter (\<lambda>w. w_user_id w = recipientId) (wallets (c_db c)) = rw # rrest"
    using s21 rows2 d1 by simp
  have d2: "c_db c2 = c_db c" and l2: "c_locks c2 = c_locks c @ map w_id (sw # srest) @ map w_id (rw # rrest)"
    using s21 rows2 d1 l1 by simp_all
  have w3: "update_wallet_rows (- amount) (w_id sw) (wallets (c_db c)) = Inr (wallets (c_db c3))"
    using u1 d2 by simp
  have w4: "update_wallet_rows amount (w_id rw) (wallets (c_db c3)) = Inr (wallets (c_db c'))"
    using v1 j1 i1 c' by simp
  have t4: "transactions (c_db c4) = transactions (c_db c)"
    using v1 u1 d2 by simp
  have us: "users (c_db c') = users (c_db c)"
    using v1 u1 d2 i1 j1 c' by simp
  have lk: "c_locks c' = c_locks c @ map w_id (sw # srest) @ map w_id (rw # rrest)"
    using v1 u1 l2 i1 j1 c' by simp
  show ?thesis
    apply (rule exI[of _ sw], rule exI[of _ srest], rule exI[of _ rw], rule exI[of _ rrest],
        rule exI[of _ "wallets (c_db c3)"], rule exI[of _ c4], rule exI[of _ c5])
    using f1 b f2 w3 w4 lk us t4 i[unfolded r5] j[unfolded r6] resp c'
    by simp
qed

lemma db_transaction_Inr:
  "db_transaction f s = (Inr r, s') \<Longrightarrow> \<exists>c. f \<lparr>c_db = s, c_locks = []\<rparr> = (Inr r, c) \<and> s' = c_db c"
  by (cases "f \<lparr>c_db = s, c_locks = []\<rparr>") (auto simp: db_transaction_def split: sum.splits)

lemma db_transaction_Inl:
  "db_transaction f s = (Inl e, s') \<Longrightarrow> s' = s"
  by (cases "f \<lparr>c_db = s, c_locks = []\<rparr>") (auto simp: db_transaction_def split: sum.splits)

lemma credit_at_Inr:
  assumes "credit_at s0 s userId amount d reference gen = (Inr t, s')"
  shows "isValidAmount amount
     \<and> select_transactions_by_reference s0 (or_else reference gen) = []
     \<and> (\<exists>c. credit_tx userId (num_value amount) (or_else reference gen) d \<lparr>c_db = s, c_locks = []\<rparr> = (Inr t, c)
            \<and> s' = c_db c)"
  using assms
  by (auto simp: credit_at_def Let_def split: if_splits dest: db_transaction_Inr)

lemma credit_at_Inl:
  "credit_at s0 s userId amount d reference gen = (Inl e, s') \<Longrightarrow> s' = s"
  by (auto simp: credit_at_def Let_def split: if_splits dest: db_transaction_Inl)

lemma debit_at_Inr:
  assumes "debit_at s0 s userId amount d reference gen = (Inr t, s')"
  shows "isValidAmount amount
     \<and> select_transactions_by_reference s0 (or_else reference gen) = []
     \<and> (\<exists>c. debit_tx userId (num_value amount) (or_else reference gen) d \<lparr>c_db = s, c_locks = []\<rparr> = (Inr t, c)
            \<and> s' = c_db c)"
  using assms
  by (auto simp: debit_at_def Let_def split: if_splits dest: db_transaction_Inr)

lemma debit_at_Inl:
  "debit_at s0 s userId amount d reference gen = (Inl e, s') \<Longrightarrow> s' = s"
  by (auto simp: debit_at_def Let_def split: if_splits dest: db_transaction_Inl)

lemma transfer_at_Inr:
  assumes "transfer_at s0 s senderUserId email uid amount d reference gen = (Inr resp, s')"
  shows "isValidAmount amount
     \<and> select_transactions_by_reference s0 (or_else reference gen) = []
     \<and> (\<exists>recipientId c. resolve_recipient s0 email uid = Inr recipientId
            \<and> senderUserId \<noteq> recipientId
            \<and> transfer_tx senderUserId recipientId (num_value amount) (or_else reference gen) d
                 \<lparr>c_db = s, c_locks = []\<rparr> = (Inr resp, c)
            \<and> s' = c_db c)"
  using assms
  by (auto simp: transfer_at_def Let_def split: if_splits sum.splits dest: db_transaction_Inr)

lemma transfer_at_Inl:
  "transfer_at s0 s senderUserId email uid amount d reference gen = (Inl e, s') \<Longrightarrow> s' = s"
  by (auto simp: transfer_at_def Let_def split: if_splits sum.splits dest: db_transaction_Inl)

section \<open>Balances never go below zero\<close>

lemma update_wallet_rows_nonneg:
  "update_wallet_rows delta wid ws = Inr ws' \<Longrightarrow>
     list_all (\<lambda>w. 0 \<le> w_balance w) ws \<Longrightarrow> list_all (\<lambda>w. 0 \<le> w_balance w) ws'"
proof (induction ws arbitrary: ws')
  case Nil
  then show ?case by simp
next
  case (Cons w ws)
  then show ?case
    by (auto split: if_splits sum.splits)
qed

lemma credit_at_nonneg:
  assumes "balances_nonneg s"
  shows "balances_nonneg (snd (credit_at s0 s userId amount d reference gen))"
proof (cases "credit_at s0 s userId amount d reference gen")
  case (Pair res s')
  show ?thesis
  proof (cases res)
    case (Inl e)
    with Pair credit_at_Inl have "s' = s" by blast
    with Pair assms show ?thesis by simp
  next
    case (Inr t)
    with Pair credit_at_Inr obtain c where
      c: "credit_tx userId (num_value amount) (or_else reference gen) d \<lparr>c_db = s, c_locks = []\<rparr> = (Inr t, c)"
      and s': "s' = c_db c" by blast
    from credit_tx_Inr[OF c] obtain w :: wallet_row where
      "update_wallet_rows (num_value amount) (w_id w) (wallets s) = Inr (wallets s')"
      using s' by auto
    from update_wallet_rows_nonneg[OF this] assms Pair show ?thesis
      by (simp add: balances_nonneg_def)
  qed
qed

lemma debit_at_nonneg:
  assumes "balances_nonneg s"
  shows "balances_nonneg (snd (debit_at s0 s userId amount d reference gen))"
proof (cases "debit_at s0 s userId amount d reference gen")
  case (Pair res s')
  show ?thesis
  proof (cases res)
    case (Inl e)
    with Pair debit_at_Inl have "s' = s" by blast
    with Pair assms show ?thesis by simp
  next
    case (Inr t)
    with Pair debit_at_Inr obtain c where
      c: "debit_tx userId (num_value amount) (or_else reference gen) d \<lparr>c_db = s, c_locks = []\<rparr> = (Inr t, c)"
      and s': "s' = c_db c" by blast
    from debit_tx_Inr[OF c] obtain w :: wallet_row where
      "update_wallet_rows (- num_value amount) (w_id w) (wallets s) = Inr (wallets s')"
      using s' by auto
    from update_wallet_rows_nonneg[OF this] assms Pair show ?thesis
      by (simp add: balances_nonneg_def)
  qed
qed

lemma transfer_at_nonneg:
  assumes "balances_nonneg s"
  shows "balances_nonneg (snd (transfer_at s0 s senderUserId email uid amount d reference gen))"
proof (cases "transfer_at s0 s senderUserId email uid amount d reference gen")
  case (Pair res s')
  show ?thesis
  proof (cases res)
    case (Inl e)
    with Pair transfer_at_Inl have "s' = s" by blast
    with Pair assms show ?thesis by simp
  next
    case (Inr resp)
    with Pair transfer_at_Inr obtain recipientId c where
      c: "transfer_tx senderUserId recipientId (num_value amount) (or_else reference gen) d
            \<lparr>c_db = s, c_locks = []\<rparr> = (Inr resp, c)"
      and s': "s' = c_db c" by blast
    from transfer_tx_Inr[OF c] obtain sw :: wallet_row and rw :: wallet_row and ws1 where
      u1: "update_wallet_rows (- num_value amount) (w_id sw) (wallets s) = Inr ws1" and
      u2: "update_wallet_rows (num_value amount) (w_id rw) ws1 = Inr (wallets s')"
      using s' by auto
    from update_wallet_rows_nonneg[OF u2 update_wallet_rows_nonneg[OF u1]] assms Pair
    show ?thesis
      by (simp add: balances_nonneg_def)
  qed
qed

lemma serve_nonneg: "balances_nonneg s \<Longrightarrow> balances_nonneg (serve s req)"
  by (cases req) (simp_all add: credit_def debit_def transfer_def credit_at_nonneg debit_at_nonneg transfer_at_nonneg)

text \<open>
  Claim C7. Non-negativity of every balance is an invariant of the engine: from a store
  in which no balance is negative, no sequence of Credit, Debit and Transfer requests,
  whatever their arguments and whether they succeed or fail, reaches a store with a
  negative balance.
\<close>

theorem balances_never_negative:
  "balances_nonneg s \<Longrightarrow> balances_nonneg (run s reqs)"
  unfolding run_def
  by (induction reqs arbitrary: s) (simp_all add: serve_nonneg)

theorem balances_never_negative_witness:
  "balances_nonneg (ledger 1000 200) \<and>
   map w_balance (wallets (run (ledger 1000 200)
        [DebitRequest ''u-alice'' (Num 500) None (Some ''D1'') ''TXN-1'',
         TransferRequest ''u-alice'' (Some ''bob@example.com'') None (Num 600) None
           (Some ''T1'') ''TXN-2'',
         TransferRequest ''u-alice'' None (Some ''u-bob'') (Num 450) None (Some ''T2'')
           ''TXN-3'',
         DebitRequest ''u-alice'' (Num 100) None None ''TXN-4''])) = [50, 650, 0] \<and>
   balances_nonneg (run (ledger 1000 200)
        [DebitRequest ''u-alice'' (Num 500) None (Some ''D1'') ''TXN-1'',
         TransferRequest ''u-alice'' (Some ''bob@example.com'') None (Num 600) None
           (Some ''T1'') ''TXN-2'',
         TransferRequest ''u-alice'' None (Some ''u-bob'') (Num 450) None (Some ''T2'')
           ''TXN-3'',
         DebitRequest ''u-alice'' (Num 100) None None ''TXN-4''])"
proof -
  have h: "balances_nonneg (ledger 1000 200)"
    by (simp add: balances_nonneg_def ledger_def)
  have v: "map w_balance (wallets (run (ledger 1000 200)
        [DebitRequest ''u-alice'' (Num 500) None (Some ''D1'') ''TXN-1'',
         TransferRequest ''u-alice'' (Some ''bob@example.com'') None (Num 600) None
           (Some ''T1'') ''TXN-2'',
         TransferRequest ''u-alice'' None (Some ''u-bob'') (Num 450) None (Some ''T2'')
           ''TXN-3'',
         DebitRequest ''u-alice'' (Num 100) None None ''TXN-4''])) = [50, 650, 0]"
    by code_simp
  from balances_never_negative[OF h] h v show ?thesis by blast
qed

section \<open>Insufficient balance\<close>




section \<open>Duplicate references\<close>

lemma duplicate_reference_found:
  "t \<in> set (transactions s0) \<Longrightarrow> t_reference t = r \<Longrightarrow>
     select_transactions_by_reference s0 r \<noteq> []"
proof -
  assume "t \<in> set (transactions s0)" "t_reference t = r"
  then have "t \<in> set (select_transactions_by_reference s0 r)"
    by (simp add: select_transactions_by_reference_def)
  then show ?thesis by auto
qed

lemma credit_at_appends:
  assumes "credit_at s0 s userId amount d reference gen = (Inr t, s')"
  shows "transactions s' = transactions s @ [t] \<and> t_reference t = or_else reference gen"
proof -
  from credit_at_Inr[OF assms] obtain c where
    c: "credit_tx userId (num_value amount) (or_else reference gen) d
          \<lparr>c_db = s, c_locks = []\<rparr> = (Inr t, c)" and s': "s' = c_db c"
    by blast
  from credit_tx_Inr[OF c] obtain w :: wallet_row and c1 where
    i: "insert_transaction (w_id w) userId Credit (num_value amount) (or_else reference gen)
          (truthy d) (toFixed2 (w_balance w)) (toFixed2 (w_balance w + num_value amount)) c1
        = (Inr t, c)"
    and t1: "transactions (c_db c1) = transactions s"
    by auto
  from insert_transaction_Inr[OF i] t1 s' show ?thesis by simp
qed

text \<open>
  Claim C6. A Credit with a valid amount whose reference \<open>r\<close> is already carried by a
  record of the store is rejected with
  \<^verbatim>\<open>AppError(409, 'Transaction reference already exists')\<close>; the store, balances and
  records alike, is left as it was. So when a Credit under \<open>r\<close> has succeeded, the same
  Credit sent again is rejected and applies nothing a second time.
\<close>

theorem credit_duplicate_reference:
  assumes "isValidAmount amount" and "r \<noteq> []"
  shows "(t \<in> set (transactions s0) \<and> t_reference t = r \<longrightarrow>
            credit_at s0 s userId amount description (Some r) gen =
              (Inl (AppError 409 ''Transaction reference already exists''), s))
       \<and> (credit s userId amount description (Some r) gen = (Inr t', s') \<longrightarrow>
            credit s' userId amount description (Some r) gen =
              (Inl (AppError 409 ''Transaction reference already exists''), s'))"
proof (rule conjI; rule impI)
  assume "t \<in> set (transactions s0) \<and> t_reference t = r"
  then have "select_transactions_by_reference s0 r \<noteq> []"
    using duplicate_reference_found by blast
  then show "credit_at s0 s userId amount description (Some r) gen =
              (Inl (AppError 409 ''Transaction reference already exists''), s)"
    using assms by (simp add: credit_at_def or_else_def)
next
  assume "credit s userId amount description (Some r) gen = (Inr t', s')"
  then have "transactions s' = transactions s @ [t'] \<and> t_reference t' = r"
    using credit_at_appends[of s s userId amount description "Some r" gen t' s'] assms(2)
    by (simp add: credit_def or_else_def)
  then have "select_transactions_by_reference s' r \<noteq> []"
    using duplicate_reference_found[of t' s' r] by simp
  then show "credit s' userId amount description (Some r) gen =
              (Inl (AppError 409 ''Transaction reference already exists''), s')"
    using assms by (simp add: credit_def credit_at_def or_else_def)
qed

text \<open>
  The scenario of the specification: the balance is 1000, a credit of 500 under \<open>R1\<close>
  brings it to 1500, and the second call under \<open>R1\<close> is refused with the balance still
  at 1500.
\<close>

theorem credit_duplicate_reference_witness:
  "credit (ledger 1000 200) ''u-alice'' (Num 500) None (Some ''R1'') ''TXN-0'' =
     (Inr r1_credit, ledger_after_R1)
   \<and> getBalance ledger_after_R1 ''u-alice'' = Inr (1500, ''NGN'')
   \<and> credit ledger_after_R1 ''u-alice'' (Num 500) None (Some ''R1'') ''TXN-0'' =
       (Inl (AppError 409 ''Transaction reference already exists''), ledger_after_R1)
   \<and> credit_at ledger_after_R1 (ledger 1000 200) ''u-alice'' (Num 500) None (Some ''R1'')
       ''TXN-0'' =
       (Inl (AppError 409 ''Transaction reference already exists''), ledger 1000 200)"
proof -
  have 1: "isValidAmount (Num 500)" by simp
  have 2: "''R1'' \<noteq> []" by simp
  have 3: "credit (ledger 1000 200) ''u-alice'' (Num 500) None (Some ''R1'') ''TXN-0'' =
     (Inr r1_credit, ledger_after_R1)"
    by code_simp
  have 4: "getBalance ledger_after_R1 ''u-alice'' = Inr (1500, ''NGN'')"
    by code_simp
  have 5: "r1_credit \<in> set (transactions ledger_after_R1) \<and> t_reference r1_credit = ''R1''"
    by code_simp
  from credit_duplicate_reference[OF 1 2, of r1_credit ledger_after_R1 "ledger 1000 200"
      "''u-alice''" None "''TXN-0''" r1_credit ledger_after_R1] 3 4 5
  show ?thesis by blast
qed

section \<open>Looking a transaction up by its reference\<close>

text \<open>
  Claim C10. \<^verbatim>\<open>getTransactionByReference(reference, userId)\<close> returns a record only when
  both the reference and the owner match; and, references being unique in the store, a
  stored record with the reference asked for but another owner makes the answer
  \<^verbatim>\<open>null\<close>: no user retrieves another user's transaction by its reference.
\<close>

theorem getTransactionByReference_owner:
  "(getTransactionByReference s reference userId = Some t \<longrightarrow>
      t \<in> set (transactions s) \<and> t_reference t = reference \<and> t_user_id t = userId)
   \<and> (unique_references s \<and> t' \<in> set (transactions s) \<and> t_reference t' = reference
        \<and> t_user_id t' \<noteq> userId \<longrightarrow> getTransactionByReference s reference userId = None)"
proof (rule conjI; rule impI)
  assume "getTransactionByReference s reference userId = Some t"
  then obtain rest where
    "filter (\<lambda>t. t_reference t = reference \<and> t_user_id t = userId) (transactions s) = t # rest"
    by (auto simp: getTransactionByReference_def split: list.splits)
  then have "t \<in> set (filter (\<lambda>t. t_reference t = reference \<and> t_user_id t = userId)
                        (transactions s))"
    by simp
  then show "t \<in> set (transactions s) \<and> t_reference t = reference \<and> t_user_id t = userId"
    by simp
next
  assume a: "unique_references s \<and> t' \<in> set (transactions s) \<and> t_reference t' = reference
        \<and> t_user_id t' \<noteq> userId"
  have "\<And>x. x \<in> set (transactions s) \<Longrightarrow> t_reference x = reference \<Longrightarrow> x = t'"
    using a by (auto simp: unique_references_def distinct_map inj_on_def)
  then have "filter (\<lambda>t. t_reference t = reference \<and> t_user_id t = userId) (transactions s) = []"
    using a by (auto simp: filter_empty_conv)
  then show "getTransactionByReference s reference userId = None"
    by (simp add: getTransactionByReference_def)
qed

text \<open>Alice finds her side of the transfer under \<open>T1-OUT\<close>; Bob, asking for it, finds nothing.\<close>

theorem getTransactionByReference_owner_witness:
  "getTransactionByReference ledger_after_T1 ''T1-OUT'' ''u-alice'' = Some t1_out
   \<and> t_user_id t1_out = ''u-alice''
   \<and> getTransactionByReference ledger_after_T1 ''T1-OUT'' ''u-bob'' = None"
proof -
  have 1: "getTransactionByReference ledger_after_T1 ''T1-OUT'' ''u-alice'' = Some t1_out"
    by code_simp
  have 2: "unique_references ledger_after_T1 \<and> t1_out \<in> set (transactions ledger_after_T1)
        \<and> t_reference t1_out = ''T1-OUT'' \<and> t_user_id t1_out \<noteq> ''u-bob''"
    by code_simp
  from getTransactionByReference_owner[of ledger_after_T1 "''T1-OUT''" "''u-alice''" t1_out]
       getTransactionByReference_owner[of ledger_after_T1 "''T1-OUT''" "''u-bob''" _ t1_out]
       1 2
  show ?thesis by blast
qed

section \<open>Amounts and balances of two decimals\<close>

text \<open>On a value of at most two decimals neither \<^verbatim>\<open>toFixed(2)\<close> nor the column type rounds.\<close>

lemma two_decimals_iff: "two_decimals q \<longleftrightarrow> q * 100 \<in> \<int>"
  unfolding two_decimals_def
  by (metis Ints_of_int of_int_floor)






lemma numeric_18_2_Inr: "numeric_18_2 q = Inr r \<Longrightarrow> r = round_half_away q"
  by (auto simp: numeric_18_2_def Let_def split: if_splits)

lemma update_wallet_rows_map:
  "update_wallet_rows delta wid ws = Inr ws' \<Longrightarrow>
     ws' = map (\<lambda>w. if w_id w = wid
                      then w\<lparr>w_balance := round_half_away (w_balance w + delta)\<rparr>
                      else w) ws"
proof (induction ws arbitrary: ws')
  case Nil
  then show ?case by simp
next
  case (Cons w ws)
  then show ?case
    by (auto split: if_splits sum.splits dest: numeric_18_2_Inr)
qed

lemma two_decimals_round: "two_decimals (round_half_away q)"
  unfolding two_decimals_iff round_half_away_def by simp







section \<open>What the schema keeps true\<close>

text \<open>
  Wallet identifiers and owners stay unique, balances stay at two decimals and references
  stay unique through every request, served or refused.
\<close>

lemma update_wallet_rows_keeps:
  assumes "update_wallet_rows delta wid ws = Inr ws'"
  shows "map w_id ws' = map w_id ws \<and> map w_user_id ws' = map w_user_id ws
         \<and> (list_all (\<lambda>w. two_decimals (w_balance w)) ws \<longrightarrow>
              list_all (\<lambda>w. two_decimals (w_balance w)) ws')"
  unfolding update_wallet_rows_map[OF assms]
  by (auto simp: list_all_iff two_decimals_round)

lemma append_unique:
  "distinct (map t_reference ts) \<Longrightarrow> t_reference t \<notin> t_reference ` set ts \<Longrightarrow>
     distinct (map t_reference (ts @ [t]))"
  by auto

lemma credit_at_store_ok:
  assumes "store_ok s"
  shows "store_ok (snd (credit_at s0 s userId amount d reference gen))"
proof (cases "credit_at s0 s userId amount d reference gen")
  case (Pair res s')
  show ?thesis
  proof (cases res)
    case (Inl e)
    with Pair credit_at_Inl have "s' = s" by blast
    with Pair assms show ?thesis by simp
  next
    case (Inr t)
    with Pair credit_at_Inr obtain c where
      c: "credit_tx userId (num_value amount) (or_else reference gen) d
            \<lparr>c_db = s, c_locks = []\<rparr> = (Inr t, c)"
      and s': "s' = c_db c" by blast
    from credit_tx_Inr[OF c] obtain w :: wallet_row and c1 where
      u: "update_wallet_rows (num_value amount) (w_id w) (wallets s) = Inr (wallets s')"
      and i: "insert_transaction (w_id w) userId Credit (num_value amount)
                (or_else reference gen) (truthy d) (toFixed2 (w_balance w))
                (toFixed2 (w_balance w + num_value amount)) c1 = (Inr t, c)"
      and t1: "transactions (c_db c1) = transactions s"
      using s' by auto
    note k = update_wallet_rows_keeps[OF u]
    note i1 = insert_transaction_Inr[OF i]
    have "unique_references s'"
      using assms i1 t1 s' by (simp add: store_ok_def unique_references_def)
    with k assms Pair show ?thesis
      by (simp add: store_ok_def wallet_keys_def balances_two_decimals_def)
  qed
qed

lemma debit_at_store_ok:
  assumes "store_ok s"
  shows "store_ok (snd (debit_at s0 s userId amount d reference gen))"
proof (cases "debit_at s0 s userId amount d reference gen")
  case (Pair res s')
  show ?thesis
  proof (cases res)
    case (Inl e)
    with Pair debit_at_Inl have "s' = s" by blast
    with Pair assms show ?thesis by simp
  next
    case (Inr t)
    with Pair debit_at_Inr obtain c where
      c: "debit_tx userId (num_value amount) (or_else reference gen) d
            \<lparr>c_db = s, c_locks = []\<rparr> = (Inr t, c)"
      and s': "s' = c_db c" by blast
    from debit_tx_Inr[OF c] obtain w :: wallet_row and c1 where
      u: "update_wallet_rows (- num_value amount) (w_id w) (wallets s) = Inr (wallets s')"
      and i: "insert_transaction (w_id w) userId Debit (num_value amount)
                (or_else reference gen) (truthy d) (toFixed2 (w_balance w))
                (toFixed2 (w_balance w - num_value amount)) c1 = (Inr t, c)"
      and t1: "transactions (c_db c1) = transactions s"
      using s' by auto
    note k = update_wallet_rows_keeps[OF u]
    note i1 = insert_transaction_Inr[OF i]
    have "unique_references s'"
      using assms i1 t1 s' by (simp add: store_ok_def unique_references_def)
    with k assms Pair show ?thesis
      by (simp add: store_ok_def wallet_keys_def balances_two_decimals_def)
  qed
qed

lemma transfer_at_store_ok:
  assumes "store_ok s"
  shows "store_ok (snd (transfer_at s0 s senderUserId email uid amount d reference gen))"
proof (cases "transfer_at s0 s senderUserId email uid amount d reference gen")
  case (Pair res s')
  show ?thesis
  proof (cases res)
    case (Inl e)
    with Pair transfer_at_Inl have "s' = s" by blast
    with Pair assms show ?thesis by simp
  next
    case (Inr resp)
    with Pair transfer_at_Inr obtain recipientId c where
      c: "transfer_tx senderUserId recipientId (num_value amount) (or_else reference gen) d
            \<lparr>c_db = s, c_locks = []\<rparr> = (Inr resp, c)"
      and s': "s' = c_db c" by blast
    from transfer_tx_Inr[OF c] obtain sw :: wallet_row and rw :: wallet_row and ws1 c4 c5 where
      u1: "update_wallet_rows (- num_value amount) (w_id sw) (wallets s) = Inr ws1" and
      u2: "update_wallet_rows (num_value amount) (w_id rw) ws1 = Inr (wallets s')" and
      t4: "transactions (c_db c4) = transactions s" and
      i: "insert_transaction (w_id sw) senderUserId TransferOut (num_value amount)
            (or_else reference gen @ ''-OUT'')
            (Some (or_else d ''Transfer'' @ '' to user '' @ recipientId))
            (toFixed2 (w_balance sw)) (toFixed2 (w_balance sw - num_value amount)) c4
          = (Inr (sender_transaction resp), c5)" and
      j: "insert_transaction (w_id rw) recipientId TransferIn (num_value amount)
            (or_else reference gen @ ''-IN'')
            (Some (or_else d ''Transfer'' @ '' from user '' @ senderUserId))
            (toFixed2 (w_balance rw)) (toFixed2 (w_balance rw + num_value amount)) c5
          = (Inr (recipient_transaction resp), c)"
      using s' by auto
    note k1 = update_wallet_rows_keeps[OF u1]
    note k2 = update_wallet_rows_keeps[OF u2]
    note i1 = insert_transaction_Inr[OF i]
    note j1 = insert_transaction_Inr[OF j]
    have "unique_references s'"
      using assms i1 j1 t4 s' by (simp add: store_ok_def unique_references_def)
    with k1 k2 assms Pair show ?thesis
      by (simp add: store_ok_def wallet_keys_def balances_two_decimals_def)
  qed
qed

lemma serve_store_ok: "store_ok s \<Longrightarrow> store_ok (serve s req)"
  by (cases req)
     (simp_all add: credit_def debit_def transfer_def credit_at_store_ok debit_at_store_ok
        transfer_at_store_ok)

lemma run_store_ok: "store_ok s \<Longrightarrow> store_ok (run s reqs)"
  unfolding run_def
  by (induction reqs arbitrary: s) (simp_all add: serve_store_ok)

lemma ledger_store_ok: "two_decimals a \<Longrightarrow> two_decimals b \<Longrightarrow> store_ok (ledger a b)"
  by (simp add: store_ok_def wallet_keys_def balances_two_decimals_def unique_references_def
      ledger_def two_decimals_def)

section \<open>Conservation in a transfer\<close>




section \<open>The balance equation of a record\<close>







section \<open>The order of the two locks\<close>

text \<open>
  Claim C4, as stated, against the code. A transfer from Alice to Bob locks Alice's
  wallet and then Bob's; the transfer in the opposite direction locks Bob's and then
  Alice's. No order of the two accounts that is independent of their roles is followed.
\<close>

theorem transfer_lock_order_counterexample:
  "c_locks (snd (transfer_tx ''u-alice'' ''u-bob'' 100 ''T1'' None
                   \<lparr>c_db = ledger 500 200, c_locks = []\<rparr>)) = [''w-alice'', ''w-bob'']
   \<and> c_locks (snd (transfer_tx ''u-bob'' ''u-alice'' 100 ''T2'' None
                   \<lparr>c_db = ledger 500 200, c_locks = []\<rparr>)) = [''w-bob'', ''w-alice'']"
  by code_simp

lemma update_balance_locks: "c_locks (snd (update_balance delta wid c)) = c_locks c"
  by (simp add: update_balance_def split: sum.splits)

lemma insert_transaction_locks:
  "c_locks (snd (insert_transaction wid uid ty amount reference description before after c)) = c_locks c"
  by (simp add: insert_transaction_def Let_def split: sum.splits)

lemma transfer_tx_locks:
  "c_locks (snd (transfer_tx senderUserId recipientId amount r d \<lparr>c_db = s, c_locks = []\<rparr>)) =
       map w_id (filter (\<lambda>w. w_user_id w = senderUserId) (wallets s))
   \<or> c_locks (snd (transfer_tx senderUserId recipientId amount r d \<lparr>c_db = s, c_locks = []\<rparr>)) =
       map w_id (filter (\<lambda>w. w_user_id w = senderUserId) (wallets s))
       @ map w_id (filter (\<lambda>w. w_user_id w = recipientId) (wallets s))"
proof -
  let ?c0 = "\<lparr>c_db = s, c_locks = []\<rparr>"
  let ?S = "map w_id (filter (\<lambda>w. w_user_id w = senderUserId) (wallets s))"
  let ?R = "map w_id (filter (\<lambda>w. w_user_id w = recipientId) (wallets s))"
  obtain rows c1 where s1: "select_wallet_for_update senderUserId ?c0 = (rows, c1)"
    by (cases "select_wallet_for_update senderUserId ?c0")
  from select_wallet_for_update_db[OF s1] have l1: "c_locks c1 = ?S" and d1: "c_db c1 = s"
    by auto
  obtain rows2 c2 where s2: "select_wallet_for_update recipientId c1 = (rows2, c2)"
    by (cases "select_wallet_for_update recipientId c1")
  from select_wallet_for_update_db[OF s2] l1 d1 have l2: "c_locks c2 = ?S @ ?R"
    by auto
  show ?thesis
    unfolding transfer_tx_def s1
    using l1 l2 s2
    by (auto simp: Let_def update_balance_locks insert_transaction_locks
          split: list.splits sum.splits prod.splits
          dest!: arg_cong[where f="\<lambda>p. c_locks (snd p)"])
qed

text \<open>
  Claim C4, amended. Every Transfer locks the wallet rows of the sender first and those
  of the recipient second: when its callback stops, by an error or by returning, it
  holds either the sender's locks alone or the sender's followed by the recipient's, and
  when it returns it holds both, in that order. The order of acquisition follows the
  roles.
\<close>

theorem transfer_locks_sender_first:
  "(c_locks (snd (transfer_tx senderUserId recipientId amount r d \<lparr>c_db = s, c_locks = []\<rparr>)) =
       map w_id (filter (\<lambda>w. w_user_id w = senderUserId) (wallets s))
    \<or> c_locks (snd (transfer_tx senderUserId recipientId amount r d \<lparr>c_db = s, c_locks = []\<rparr>)) =
       map w_id (filter (\<lambda>w. w_user_id w = senderUserId) (wallets s))
       @ map w_id (filter (\<lambda>w. w_user_id w = recipientId) (wallets s)))
   \<and> (transfer_tx senderUserId recipientId amount r d \<lparr>c_db = s, c_locks = []\<rparr> =
         (Inr resp, c') \<longrightarrow>
       c_locks c' =
         map w_id (filter (\<lambda>w. w_user_id w = senderUserId) (wallets s))
         @ map w_id (filter (\<lambda>w. w_user_id w = recipientId) (wallets s)))"
proof (rule conjI)
  show "c_locks (snd (transfer_tx senderUserId recipientId amount r d
                        \<lparr>c_db = s, c_locks = []\<rparr>)) =
          map w_id (filter (\<lambda>w. w_user_id w = senderUserId) (wallets s))
        \<or> c_locks (snd (transfer_tx senderUserId recipientId amount r d
                           \<lparr>c_db = s, c_locks = []\<rparr>)) =
          map w_id (filter (\<lambda>w. w_user_id w = senderUserId) (wallets s))
          @ map w_id (filter (\<lambda>w. w_user_id w = recipientId) (wallets s))"
    by (rule transfer_tx_locks)
next
  show "transfer_tx senderUserId recipientId amount r d \<lparr>c_db = s, c_locks = []\<rparr> =
          (Inr resp, c') \<longrightarrow>
        c_locks c' =
          map w_id (filter (\<lambda>w. w_user_id w = senderUserId) (wallets s))
          @ map w_id (filter (\<lambda>w. w_user_id w = recipientId) (wallets s))"
  proof
    assume "transfer_tx senderUserId recipientId amount r d \<lparr>c_db = s, c_locks = []\<rparr> =
              (Inr resp, c')"
    from transfer_tx_Inr[OF this] show "c_locks c' =
          map w_id (filter (\<lambda>w. w_user_id w = senderUserId) (wallets s))
          @ map w_id (filter (\<lambda>w. w_user_id w = recipientId) (wallets s))"
      by auto
  qed
qed

text \<open>
  Alice sends Bob 100.00: her wallet is locked, then his. Alice, holding nothing, tries
  the same: the callback stops at the balance check with her wallet alone locked.
\<close>

theorem transfer_locks_sender_first_witness:
  "transfer_tx ''u-alice'' ''u-bob'' 100 ''T1'' None \<lparr>c_db = ledger 500 200, c_locks = []\<rparr> =
     (Inr \<lparr>sender_transaction = t1_out, recipient_transaction = t1_in,
           sender_new_balance = 400, recipient_new_balance = 300\<rparr>,
      \<lparr>c_db = ledger_after_T1, c_locks = [''w-alice'', ''w-bob'']\<rparr>)
   \<and> map w_id (filter (\<lambda>w. w_user_id w = ''u-alice'') (wallets (ledger 500 200)))
     @ map w_id (filter (\<lambda>w. w_user_id w = ''u-bob'') (wallets (ledger 500 200)))
     = [''w-alice'', ''w-bob'']
   \<and> transfer_tx ''u-alice'' ''u-bob'' 100 ''T1'' None \<lparr>c_db = ledger 0 200, c_locks = []\<rparr> =
     (Inl (AppError 400 ''Insufficient balance''),
      \<lparr>c_db = ledger 0 200, c_locks = [''w-alice'']\<rparr>)"
proof -
  have 1: "transfer_tx ''u-alice'' ''u-bob'' 100 ''T1'' None
             \<lparr>c_db = ledger 500 200, c_locks = []\<rparr> =
     (Inr \<lparr>sender_transaction = t1_out, recipient_transaction = t1_in,
           sender_new_balance = 400, recipient_new_balance = 300\<rparr>,
      \<lparr>c_db = ledger_after_T1, c_locks = [''w-alice'', ''w-bob'']\<rparr>)"
    by code_simp
  have 2: "transfer_tx ''u-alice'' ''u-bob'' 100 ''T1'' None
             \<lparr>c_db = ledger 0 200, c_locks = []\<rparr> =
     (Inl (AppError 400 ''Insufficient balance''),
      \<lparr>c_db = ledger 0 200, c_locks = [''w-alice'']\<rparr>)"
    by code_simp
  from transfer_locks_sender_first[of "''u-alice''" "''u-bob''" 100 "''T1''" None
         "ledger 500 200" _ "\<lparr>c_db = ledger_after_T1, c_locks = [''w-alice'', ''w-bob'']\<rparr>"]
       1 2
  show ?thesis by simp
qed

section \<open>The references derived for a transfer\<close>

text \<open>
  Claim C5, evaluated. The ledger holds the records \<open>T1-OUT\<close> and \<open>T1-IN\<close> of a committed
  transfer, and the same transfer is sent again under the base reference \<open>T1\<close>. The check
  made before the transaction looks for \<open>T1\<close> itself and finds nothing; the callback
  locks both wallets and updates both balances, and only the insertion of \<open>T1-OUT\<close>
  fails, on the \<^verbatim>\<open>UNIQUE\<close> constraint. The caller receives the store's error, not the
  409 of a duplicate reference, and the transaction is rolled back. A Credit under a
  reference in use, by contrast, is refused with 409 before any lock.
\<close>

theorem transfer_derived_reference_collision:
  "select_transactions_by_reference ledger_after_T1 ''T1'' = []
   \<and> transfer ledger_after_T1 ''u-alice'' None (Some ''u-bob'') (Num 100) None (Some ''T1'')
       ''TXN-0'' = (Inl (DatabaseError UniqueViolation), ledger_after_T1)
   \<and> c_locks (snd (transfer_tx ''u-alice'' ''u-bob'' 100 ''T1'' None
                   \<lparr>c_db = ledger_after_T1, c_locks = []\<rparr>)) = [''w-alice'', ''w-bob'']
   \<and> credit ledger_after_R1 ''u-alice'' (Num 100) None (Some ''R1'') ''TXN-0'' =
       (Inl (AppError 409 ''Transaction reference already exists''), ledger_after_R1)"
  by code_simp

section \<open>Transfers to oneself\<close>





section \<open>The two forms of the recipient\<close>

text \<open>
  Claim C9, as stated, against the code. Alice sends 100 and names Bob by email and Carol
  by identifier. Neither the service nor the route handler refuses the call: the
  transfer commits, to Bob.
\<close>

theorem transfer_both_selectors_counterexample:
  "transfer (ledger 500 200) ''u-alice'' (Some ''bob@example.com'') (Some ''u-carol'')
     (Num 100) None (Some ''T1'') ''TXN-0'' =
     (Inr \<lparr>sender_transaction = t1_out, recipient_transaction = t1_in,
           sender_new_balance = 400, recipient_new_balance = 300\<rparr>, ledger_after_T1)
   \<and> WalletController_transfer (ledger 500 200) (ledger 500 200) (Some ''u-alice'')
       (Some ''bob@example.com'') (Some ''u-carol'') (Num 100) None (Some ''T1'') ''TXN-0'' =
     (Response 201 ''Transfer successful''
        (Some \<lparr>sender_transaction = t1_out, recipient_transaction = t1_in,
               sender_new_balance = 400, recipient_new_balance = 300\<rparr>), ledger_after_T1)"
  by code_simp

text \<open>
  Claim C9, amended. A Transfer call that supplies neither form of the recipient fails
  with a 400 error and changes nothing, in the service as in the route handler. A call
  that supplies both is not refused: the recipient is resolved from the email alone and
  the call behaves as the same call without the identifier.
\<close>

theorem transfer_recipient_selectors:
  "(truthy recipientEmail = None \<and> truthy recipientUserId = None \<longrightarrow>
      (\<exists>message. transfer_at s0 s senderUserId recipientEmail recipientUserId amount
          description reference gen = (Inl (AppError 400 message), s))
      \<and> WalletController_transfer s0 s (Some senderUserId) recipientEmail recipientUserId
          amount description reference gen =
        (Response 400 ''Either recipient_email or recipient_user_id must be provided'' None, s))
   \<and> (truthy recipientEmail \<noteq> None \<longrightarrow>
        transfer_at s0 s senderUserId recipientEmail recipientUserId amount description
          reference gen =
        transfer_at s0 s senderUserId recipientEmail None amount description reference gen)"
  by (auto simp: transfer_at_def WalletController_transfer_def resolve_recipient_def Let_def
           split: option.splits)

theorem transfer_recipient_selectors_witness:
  "transfer (ledger 500 200) ''u-alice'' None (Some '''') (Num 100) None (Some ''T1'') ''TXN-0''
     = (Inl (AppError 400 ''Either recipient_email or recipient_user_id must be provided''),
        ledger 500 200)
   \<and> WalletController_transfer (ledger 500 200) (ledger 500 200) (Some ''u-alice'') None
        (Some '''') (Num 100) None (Some ''T1'') ''TXN-0'' =
       (Response 400 ''Either recipient_email or recipient_user_id must be provided'' None,
        ledger 500 200)
   \<and> transfer (ledger 500 200) ''u-alice'' (Some ''bob@example.com'') (Some ''u-carol'')
        (Num 100) None (Some ''T1'') ''TXN-0'' =
       transfer (ledger 500 200) ''u-alice'' (Some ''bob@example.com'') None
        (Num 100) None (Some ''T1'') ''TXN-0''"
proof -
  have 1: "truthy None = None \<and> truthy (Some '''') = None" by simp
  have 2: "truthy (Some ''bob@example.com'') \<noteq> None" by simp
  have 3: "transfer (ledger 500 200) ''u-alice'' None (Some '''') (Num 100) None (Some ''T1'') ''TXN-0''
     = (Inl (AppError 400 ''Either recipient_email or recipient_user_id must be provided''),
        ledger 500 200)" by code_simp
  from transfer_recipient_selectors[of None "Some ''''" "ledger 500 200" "ledger 500 200"
         "''u-alice''" "Num 100" None "Some ''T1''" "''TXN-0''"]
       transfer_recipient_selectors[of "Some ''bob@example.com''" "Some ''u-carol''"
         "ledger 500 200" "ledger 500 200" "''u-alice''" "Num 100" None "Some ''T1''" "''TXN-0''"]
       1 2 3
  show ?thesis by (simp add: transfer_def)
qed

end
